theory Spec2Isabelle
  imports Main "HOL-Library.Sublist"
begin

section \<open>Configuration values\<close>

text \<open>
  The configurations are the dictionaries that the YAML loader returns for the
  \<open>global\<close> section and for the section of the project. The program
  observes three things of a value: its truth value (\<open>not value\<close>), whether
  it equals the string \<open>"MUST_BE_SET"\<close>, and its \<open>str()\<close> text when
  it is interpolated into an f-string. \<open>PNone\<close>, \<open>PBool\<close>, \<open>PInt\<close> and
  \<open>PStr\<close> are Python's values of these types. \<open>POther t s\<close> is any other
  value the loader can return (a float, a sequence, a mapping, a timestamp), given
  by its truth value \<open>t\<close> and its \<open>str()\<close> text \<open>s\<close>; such a value is
  never equal to a \<open>str\<close>.
\<close>

datatype pyval =
    PNone
  | PBool bool
  | PInt int
  | PStr string
  | POther bool string

text \<open>Python's truth value of an object, as \<open>not value\<close> tests it.\<close>

fun truthy :: "pyval \<Rightarrow> bool" where
  "truthy PNone = False"
| "truthy (PBool b) = b"
| "truthy (PInt i) = (i \<noteq> 0)"
| "truthy (PStr s) = (s \<noteq> [])"
| "truthy (POther t s) = t"

text \<open>Decimal digits of a natural number, for \<open>str()\<close> of an \<open>int\<close>.\<close>

fun str_nat :: "nat \<Rightarrow> string" where
  "str_nat n =
     (if n < 10 then [''0123456789'' ! n]
      else str_nat (n div 10) @ [''0123456789'' ! (n mod 10)])"

declare str_nat.simps [simp del]

text \<open>\<open>str(value)\<close>, which an f-string field \<open>{value}\<close> interpolates.\<close>

fun py_str :: "pyval \<Rightarrow> string" where
  "py_str PNone = ''None''"
| "py_str (PBool b) = (if b then ''True'' else ''False'')"
| "py_str (PInt i) = (if i < 0 then ''-'' @ str_nat (nat (- i)) else str_nat (nat i))"
| "py_str (PStr s) = s"
| "py_str (POther t s) = s"

text \<open>
  A dictionary with string keys, in insertion order (the order of \<open>cfg.items()\<close>).
  The keys of a Python dictionary are distinct; \<open>distinct (map fst cfg)\<close> says so
  where a statement needs it.
\<close>

type_synonym config = "(string \<times> pyval) list"

text \<open>
  Every exception the modelled functions raise. The two \<open>KeyError\<close>s of
  \<open>evaluate_config_keys\<close> and the \<open>ValueError\<close> of
  \<open>evaluate_global_config\<close> carry what their message interpolates: the
  name of the configuration and the list of keys. \<open>KeyError k\<close> is the
  exception of a subscript \<open>cfg[k]\<close> on a dictionary without the key \<open>k\<close>,
  \<open>FileNotFoundError p\<close> that of \<open>os.listdir(p)\<close> on a missing directory.
\<close>

datatype error =
    KeyError_missing_arguments string "string list"
  | KeyError_missing_values string "string list"
  | ValueError_default_values "string list"
  | KeyError string
  | FileNotFoundError string

text \<open>\<open>cfg[key]\<close>\<close>

definition getitem :: "config \<Rightarrow> string \<Rightarrow> error + pyval" where
  "getitem cfg key = (case map_of cfg key of None \<Rightarrow> Inl (KeyError key) | Some v \<Rightarrow> Inr v)"

section \<open>Validation of the configurations\<close>

text \<open>\<open>[key for key in list_keys if key not in cfg.keys()]\<close>\<close>

definition missing_keys :: "config \<Rightarrow> string list \<Rightarrow> string list" where
  "missing_keys cfg list_keys = filter (\<lambda>key. key \<notin> set (map fst cfg)) list_keys"

text \<open>
  \<open>[key for key, value in cfg.items() if not value if key != "site_bucket_prefix"]\<close>
\<close>

definition missing_values :: "config \<Rightarrow> string list" where
  "missing_values cfg =
     map fst (filter (\<lambda>(key, value). \<not> truthy value \<and> key \<noteq> ''site_bucket_prefix'') cfg)"

text \<open>
  \<open>evaluate_config_keys\<close>: returning normally is \<open>Inr ()\<close>. The warnings
  written to the logger before each \<open>raise\<close> are not part of the model.
\<close>

definition evaluate_config_keys :: "config \<Rightarrow> string list \<Rightarrow> string \<Rightarrow> error + unit" where
  "evaluate_config_keys cfg list_keys config_name =
     (if length (missing_keys cfg list_keys) > 0
      then Inl (KeyError_missing_arguments config_name (missing_keys cfg list_keys))
      else if length (missing_values cfg) > 0
      then Inl (KeyError_missing_values config_name (missing_values cfg))
      else Inr ())"

definition DEFAULT :: string where
  "DEFAULT = ''MUST_BE_SET''"

text \<open>
  The loop of \<open>evaluate_global_config\<close> over \<open>list_keys\<close>, on the state
  \<open>(failed, list_failed)\<close>. The subscript \<open>cfg[key]\<close> raises when the key
  is not in the dictionary.
\<close>

fun default_loop :: "config \<Rightarrow> string list \<Rightarrow> bool \<times> string list \<Rightarrow> error + (bool \<times> string list)" where
  "default_loop cfg [] st = Inr st"
| "default_loop cfg (key # keys) (failed, list_failed) =
     (case getitem cfg key of
        Inl e \<Rightarrow> Inl e
      | Inr v \<Rightarrow>
          if v = PStr DEFAULT
          then default_loop cfg keys (True, list_failed @ [key])
          else default_loop cfg keys (failed, list_failed))"

definition evaluate_global_config :: "config \<Rightarrow> string list \<Rightarrow> string \<Rightarrow> error + unit" where
  "evaluate_global_config cfg list_keys config_name =
     (case evaluate_config_keys cfg list_keys config_name of
        Inl e \<Rightarrow> Inl e
      | Inr _ \<Rightarrow>
          (case default_loop cfg list_keys (False, []) of
             Inl e \<Rightarrow> Inl e
           | Inr (failed, list_failed) \<Rightarrow>
               if failed then Inl (ValueError_default_values list_failed) else Inr ()))"

text \<open>The required keys that \<open>main_program\<close> passes to the two checks.\<close>

definition global_keys :: "string list" where
  "global_keys = [''account_id'', ''region'']"

definition project_keys :: "string list" where
  "project_keys =
     [''store_bucket'', ''store_bucket_prefix'', ''site_bucket'', ''site_bucket_prefix'',
      ''docker_image_name'', ''site_name'', ''expectations_suite_name'', ''checkpoint_name'',
      ''run_name_template'', ''data_bucket'', ''prefix_data'']"

text \<open>
  Step 2 of \<open>main_program\<close> once both sections are loaded: the check of the
  global configuration, then the check of the configuration of the project
  \<open>project\<close> (\<open>args.project\<close>).
\<close>

definition main_program_checks :: "config \<Rightarrow> config \<Rightarrow> string \<Rightarrow> error + unit" where
  "main_program_checks cfg_global cfg project =
     (case evaluate_global_config cfg_global global_keys ''global'' of
        Inl e \<Rightarrow> Inl e
      | Inr _ \<Rightarrow> evaluate_config_keys cfg project_keys project)"

section \<open>Rendering of the generated files\<close>

text \<open>
  Each generator builds the text of its files from the configurations and writes it
  with \<open>open(path, "w")\<close>. The model of a generator returns the files it writes,
  in order, each as its path and its text, or the exception raised before anything is
  written. \<open>project\<close> is \<open>args.project\<close>. Whether \<open>open\<close> succeeds
  depends on the file system and is not part of the model.
\<close>

type_synonym file_write = "string \<times> string"

text \<open>
  The f-string \<open>document\<close> of \<open>generate_ecr_bash_script\<close>, one literal for
  each line of the template.
\<close>

definition ecr_document :: \<open>pyval \<Rightarrow> pyval \<Rightarrow> string \<Rightarrow> string\<close> where
  \<open>ecr_document docker_image region ECR_endpoint =
     ''#!/bin/bash\<newline>'' @
     ''    \<newline>'' @
     ''# Ensure region is (temporarily) set to prevent errors\<newline>'' @
     ''export AWS_DEFAULT_REGION="eu-west-1"\<newline>'' @
     ''\<newline>'' @
     ''# Change permissions of files. Otherwise upstream lambda will give permission error\<newline>'' @
     ''chmod 644 $(find . -type f)\<newline>'' @
     ''chmod 755 $(find . -type d)\<newline>'' @
     ''\<newline>'' @
     ''# Temporarily copy requirements.txt for usage w/ Dockerfile\<newline>'' @
     ''cp ../requirements.txt ./requirements.txt\<newline>'' @
     ''\<newline>'' @
     ''# Build image\<newline>'' @
     ''docker build -t '' @ py_str docker_image @ '' .\<newline>'' @
     ''\<newline>'' @
     ''# Remove requirements.txt\<newline>'' @
     ''rm -rf requirements.txt\<newline>'' @
     ''\<newline>'' @
     ''# Log into AWS and ECR\<newline>'' @
     ''aws ecr get-login-password --region '' @ py_str region @
       '' | docker login --username AWS --password-stdin '' @ ECR_endpoint @ ''\<newline>'' @
     ''\<newline>'' @
     ''# Create test repo, gives warning but continues of it already exists\<newline>'' @
     ''aws ecr create-repository --repository-name '' @ py_str docker_image @
       '' --image-scanning-configuration scanOnPush=true --image-tag-mutability MUTABLE || true\<newline>'' @
     ''\<newline>'' @
     ''# Tag image and push to ECR\<newline>'' @
     ''docker tag '' @ py_str docker_image @ '':latest '' @ ECR_endpoint @ ''/'' @
       py_str docker_image @ '':latest\<newline>'' @
     ''docker push '' @ ECR_endpoint @ ''/'' @ py_str docker_image @ '':latest''\<close>

definition generate_ecr_bash_script :: "config \<Rightarrow> string \<Rightarrow> config \<Rightarrow> error + file_write list" where
  "generate_ecr_bash_script cfg project cfg_global =
     (let path = ''./'' @ project @ ''/'' in
      case getitem cfg_global ''account_id'' of Inl e \<Rightarrow> Inl e | Inr account_id \<Rightarrow>
      case getitem cfg_global ''region'' of Inl e \<Rightarrow> Inl e | Inr endpoint_region \<Rightarrow>
      let ECR_endpoint =
            py_str account_id @ ''.dkr.ecr.'' @ py_str endpoint_region @ ''.amazonaws.com'' in
      case getitem cfg ''docker_image_name'' of Inl e \<Rightarrow> Inl e | Inr docker_image \<Rightarrow>
      case getitem cfg_global ''region'' of Inl e \<Rightarrow> Inl e | Inr region \<Rightarrow>
        Inr [(path @ ''/build_image_store_on_ecr.sh'',
              ecr_document docker_image region ECR_endpoint)])"

text \<open>The f-string \<open>document\<close> of \<open>generate_terraform_provider_config\<close>.\<close>

definition provider_document :: \<open>pyval \<Rightarrow> string\<close> where
  \<open>provider_document region =
     ''# NOTE: It's best to run Terraform using state stored in a state bucket. For more\<newline>'' @
     ''# information, please refer to https://www.terraform.io/language/state/remote\<newline>'' @
     ''terraform {\<newline>'' @
     ''  required_providers {\<newline>'' @
     ''    aws = {\<newline>'' @
     ''      source  = "hashicorp/aws"\<newline>'' @
     ''      version = "~> 4.0.0"\<newline>'' @
     ''    }\<newline>'' @
     ''  }\<newline>'' @
     ''}\<newline>'' @
     ''\<newline>'' @
     ''provider "aws" {\<newline>'' @
     ''  region = "'' @ py_str region @ ''"\<newline>'' @
     ''}\<newline>''\<close>

text \<open>
  \<open>generate_terraform_provider_config\<close>. What \<open>os.listdir\<close> and
  \<open>os.path.abspath\<close> return depends on the file system and on the working
  directory, so both are parameters: \<open>listdir p\<close> is \<open>None\<close> when
  \<open>os.listdir(p)\<close> raises.
\<close>

definition generate_terraform_provider_config ::
  "(string \<Rightarrow> string list option) \<Rightarrow> (string \<Rightarrow> string) \<Rightarrow> string \<Rightarrow> config
     \<Rightarrow> error + file_write list" where
  "generate_terraform_provider_config listdir abspath project cfg_global =
     (case getitem cfg_global ''region'' of Inl e \<Rightarrow> Inl e | Inr region \<Rightarrow>
      let document = provider_document region;
          tf_dir = project @ ''/terraform/'' in
      case listdir tf_dir of
        None \<Rightarrow> Inl (FileNotFoundError tf_dir)
      | Some dirs \<Rightarrow>
          Inr (map (\<lambda>dir. (abspath (tf_dir @ dir) @ ''/provider.tf'', document)) dirs))"

text \<open>\<open>generate_terraform_var_files\<close>\<close>

definition generate_terraform_var_files :: \<open>config \<Rightarrow> string \<Rightarrow> config \<Rightarrow> error + file_write list\<close> where
  \<open>generate_terraform_var_files cfg project cfg_global =
     (case getitem cfg ''store_bucket'' of Inl e \<Rightarrow> Inl e | Inr store_bucket \<Rightarrow>
      case getitem cfg ''site_bucket'' of Inl e \<Rightarrow> Inl e | Inr site_bucket \<Rightarrow>
      case getitem cfg ''data_bucket'' of Inl e \<Rightarrow> Inl e | Inr data_bucket \<Rightarrow>
      let document_buckets =
            ''ge-bucket-name      = "'' @ py_str store_bucket @ ''"\<newline>'' @
            ''ge-site-bucket-name = "'' @ py_str site_bucket @ ''"\<newline>'' @
            ''ge-data-bucket-name = "'' @ py_str data_bucket @ ''"\<newline>'' in
      case getitem cfg_global ''account_id'' of Inl e \<Rightarrow> Inl e | Inr account_id \<Rightarrow>
      case getitem cfg_global ''region'' of Inl e \<Rightarrow> Inl e | Inr region \<Rightarrow>
      case getitem cfg ''docker_image_name'' of Inl e \<Rightarrow> Inl e | Inr docker_image_name \<Rightarrow>
      let image_uri =
            ''"'' @ py_str account_id @ ''.dkr.ecr.'' @ py_str region @ ''.amazonaws.com/'' @
            py_str docker_image_name @ '':latest"'';
          document_lambda = document_buckets @ ''image_uri = '' @ image_uri;
          paths_out =
            [''./'' @ project @ ''/terraform/buckets/'' @ project @ ''.auto.tfvars'',
             ''./'' @ project @ ''/terraform/lambda/'' @ project @ ''.auto.tfvars'']
      in Inr (zip paths_out [document_buckets, document_lambda]))\<close>

text \<open>
  The texts that a run of a generator writes, without the paths: in order, and as a
  set. A run that raises has written nothing.
\<close>

definition written_texts :: "error + file_write list \<Rightarrow> error + string list" where
  "written_texts r = (case r of Inl e \<Rightarrow> Inl e | Inr ws \<Rightarrow> Inr (map snd ws))"

definition written_text_set :: "error + file_write list \<Rightarrow> string set" where
  "written_text_set r = (case r of Inl e \<Rightarrow> {} | Inr ws \<Rightarrow> snd ` set ws)"

section \<open>Properties of the validation\<close>

subsection \<open>Auxiliary facts\<close>

lemma getitem_present:
  "key \<in> fst ` set cfg \<Longrightarrow> \<exists>v. getitem cfg key = Inr v"
  by (cases "map_of cfg key") (auto simp: getitem_def map_of_eq_None_iff)

lemma missing_keys_Nil_iff:
  "missing_keys cfg list_keys = [] \<longleftrightarrow> set list_keys \<subseteq> fst ` set cfg"
  by (auto simp: missing_keys_def filter_empty_conv)

lemma set_missing_keys:
  "set (missing_keys cfg list_keys) = {key \<in> set list_keys. key \<notin> fst ` set cfg}"
  by (auto simp: missing_keys_def)

lemma set_missing_values:
  "set (missing_values cfg) =
     {key. \<exists>value. (key, value) \<in> set cfg \<and> \<not> truthy value \<and> key \<noteq> ''site_bucket_prefix''}"
  by (force simp: missing_values_def)

lemma evaluate_config_keys_Inr_iff:
  "evaluate_config_keys cfg list_keys config_name = Inr () \<longleftrightarrow>
     missing_keys cfg list_keys = [] \<and> missing_values cfg = []"
  by (simp add: evaluate_config_keys_def)

text \<open>
  When every key of the list is in the dictionary, the loop runs to its end: it has
  collected, in order, the keys whose value is the default string, and the flag is set
  exactly when it was set before or a key was collected.
\<close>

lemma default_loop_present:
  "set keys \<subseteq> fst ` set cfg \<Longrightarrow>
   default_loop cfg keys (failed, list_failed) =
     Inr (failed \<or> filter (\<lambda>key. getitem cfg key = Inr (PStr DEFAULT)) keys \<noteq> [],
          list_failed @ filter (\<lambda>key. getitem cfg key = Inr (PStr DEFAULT)) keys)"
proof (induction keys arbitrary: failed list_failed)
  case Nil
  then show ?case by simp
next
  case (Cons key keys)
  from Cons.prems obtain v where v: "getitem cfg key = Inr v"
    using getitem_present by fastforce
  from Cons.prems have sub: "set keys \<subseteq> fst ` set cfg" by simp
  show ?case
    by (simp add: v Cons.IH[OF sub])
qed

subsection \<open>The report of missing values\<close>

text \<open>
  Claim C1 does not hold as it is stated: the list of missing values is computed over
  all the entries of the configuration (\<open>cfg.items()\<close>), not over the required
  keys. Here the global configuration has both required keys with values and one more
  key, \<open>profile\<close>, without a value: the check fails and reports \<open>profile\<close>,
  which is not a required key.
\<close>

theorem evaluate_config_keys_reports_key_outside_required:
  "evaluate_config_keys
     [(''account_id'', PStr ''123''), (''region'', PStr ''us-east-1''), (''profile'', PNone)]
     [''account_id'', ''region''] ''global''
     = Inl (KeyError_missing_values ''global'' [''profile''])
   \<and> ''profile'' \<notin> set [''account_id'', ''region'']"
  by (simp add: evaluate_config_keys_def missing_keys_def missing_values_def)

text \<open>
  Claim C1, amended: for every configuration (a dictionary, so with distinct keys) and
  every list of required keys that are all present, \<open>evaluate_config_keys\<close>
  returns normally when no key is reported, and otherwise raises the missing-values
  error with the reported keys; the reported keys are exactly the keys of the
  configuration, required or not, whose value is falsy, apart from
  \<open>site_bucket_prefix\<close>, the one exempt key, which the code fixes and which is
  never reported. In particular every required key with a falsy value, apart from
  \<open>site_bucket_prefix\<close>, is reported.
\<close>

theorem evaluate_config_keys_missing_values_report:
  assumes "distinct (map fst cfg)" and "set list_keys \<subseteq> fst ` set cfg"
  shows "evaluate_config_keys cfg list_keys config_name =
           (if missing_values cfg = [] then Inr ()
            else Inl (KeyError_missing_values config_name (missing_values cfg)))
       \<and> set (missing_values cfg) =
           {key. \<exists>value. map_of cfg key = Some value \<and> \<not> truthy value} - {''site_bucket_prefix''}
       \<and> {key \<in> set list_keys. \<exists>value. map_of cfg key = Some value \<and> \<not> truthy value}
             - {''site_bucket_prefix''} \<subseteq> set (missing_values cfg)"
proof -
  from assms(2) have "missing_keys cfg list_keys = []"
    by (simp add: missing_keys_Nil_iff)
  then have a: "evaluate_config_keys cfg list_keys config_name =
           (if missing_values cfg = [] then Inr ()
            else Inl (KeyError_missing_values config_name (missing_values cfg)))"
    by (simp add: evaluate_config_keys_def)
  from assms(1) have b: "set (missing_values cfg) =
           {key. \<exists>value. map_of cfg key = Some value \<and> \<not> truthy value} - {''site_bucket_prefix''}"
    by (auto simp: set_missing_values)
  from a b show ?thesis by blast
qed

theorem evaluate_config_keys_missing_values_report_witness:
  "distinct (map fst [(''account_id'', PStr ''''), (''region'', PInt 0),
                      (''site_bucket_prefix'', PNone), (''profile'', PStr ''x'')])
   \<and> set [''account_id'', ''region'']
        \<subseteq> fst ` set [(''account_id'', PStr ''''), (''region'', PInt 0),
                       (''site_bucket_prefix'', PNone), (''profile'', PStr ''x'')]
   \<and> evaluate_config_keys [(''account_id'', PStr ''''), (''region'', PInt 0),
                            (''site_bucket_prefix'', PNone), (''profile'', PStr ''x'')]
        [''account_id'', ''region''] ''global''
      = Inl (KeyError_missing_values ''global'' [''account_id'', ''region''])"
proof -
  have d: "distinct (map fst [(''account_id'', PStr ''''), (''region'', PInt 0),
                      (''site_bucket_prefix'', PNone), (''profile'', PStr ''x'')])"
    by simp
  have s: "set [''account_id'', ''region'']
        \<subseteq> fst ` set [(''account_id'', PStr ''''), (''region'', PInt 0),
                       (''site_bucket_prefix'', PNone), (''profile'', PStr ''x'')]"
    by simp
  have m: "missing_values [(''account_id'', PStr ''''), (''region'', PInt 0),
                      (''site_bucket_prefix'', PNone), (''profile'', PStr ''x'')]
             = [''account_id'', ''region'']"
    by (simp add: missing_values_def)
  from evaluate_config_keys_missing_values_report[OF d s, of "''global''"] d s m
  show ?thesis by simp
qed

subsection \<open>The report of missing keys\<close>

text \<open>
  Claim C2: for every configuration and every list of required keys, if one or more
  required keys are absent from the configuration, \<open>evaluate_config_keys\<close>
  raises the error of missing keys, and \<open>evaluate_global_config\<close>, which calls it
  first, raises the same error; the reported list holds every absent required key, and
  nothing else.
\<close>

theorem evaluate_config_keys_reports_every_missing_key:
  assumes "\<exists>key\<in>set list_keys. key \<notin> fst ` set cfg"
  shows "evaluate_config_keys cfg list_keys config_name =
           Inl (KeyError_missing_arguments config_name (missing_keys cfg list_keys))
       \<and> evaluate_global_config cfg list_keys config_name =
           Inl (KeyError_missing_arguments config_name (missing_keys cfg list_keys))
       \<and> set (missing_keys cfg list_keys) = {key \<in> set list_keys. key \<notin> fst ` set cfg}"
proof -
  from assms have "missing_keys cfg list_keys \<noteq> []"
    by (auto simp: missing_keys_Nil_iff)
  then have "evaluate_config_keys cfg list_keys config_name =
           Inl (KeyError_missing_arguments config_name (missing_keys cfg list_keys))"
    by (simp add: evaluate_config_keys_def)
  then show ?thesis
    by (simp add: evaluate_global_config_def set_missing_keys)
qed

theorem evaluate_config_keys_reports_every_missing_key_witness:
  "(\<exists>key\<in>set project_keys.
      key \<notin> fst ` set [(''store_bucket'', PStr ''b1''), (''site_bucket'', PStr ''b2'')])
   \<and> evaluate_config_keys [(''store_bucket'', PStr ''b1''), (''site_bucket'', PStr ''b2'')]
        project_keys ''demo'' =
      Inl (KeyError_missing_arguments ''demo''
        [''store_bucket_prefix'', ''site_bucket_prefix'', ''docker_image_name'', ''site_name'',
         ''expectations_suite_name'', ''checkpoint_name'', ''run_name_template'', ''data_bucket'',
         ''prefix_data''])"
proof -
  have h: "\<exists>key\<in>set project_keys.
      key \<notin> fst ` set [(''store_bucket'', PStr ''b1''), (''site_bucket'', PStr ''b2'')]"
    by (simp add: project_keys_def)
  have m: "missing_keys [(''store_bucket'', PStr ''b1''), (''site_bucket'', PStr ''b2'')]
             project_keys =
        [''store_bucket_prefix'', ''site_bucket_prefix'', ''docker_image_name'', ''site_name'',
         ''expectations_suite_name'', ''checkpoint_name'', ''run_name_template'', ''data_bucket'',
         ''prefix_data'']"
    by (simp add: missing_keys_def project_keys_def)
  from evaluate_config_keys_reports_every_missing_key[OF h, of "''demo''"] h m
  show ?thesis by simp
qed

subsection \<open>Missing keys and missing values together\<close>

text \<open>
  Claim C3 does not hold as it is stated: the error of missing keys is raised before
  the values are looked at. Here \<open>region\<close> is absent and \<open>account_id\<close> is
  present with an empty value: the one failure reports \<open>region\<close> only.
\<close>

theorem evaluate_config_keys_empty_value_not_with_missing_keys:
  "evaluate_config_keys [(''account_id'', PStr '''')] [''account_id'', ''region''] ''global''
     = Inl (KeyError_missing_arguments ''global'' [''region''])
   \<and> ''account_id'' \<notin> set [''region''] \<and> \<not> truthy (PStr '''')"
  by (simp add: evaluate_config_keys_def missing_keys_def)

text \<open>
  Claim C3, amended: for every configuration that has one or more required keys absent
  and one or more required keys present with an empty value, \<open>evaluate_config_keys\<close>
  raises the error of missing keys; its report lists every absent required key, and no
  key that is present in the configuration, so none of the keys with an empty value
  (these are reported, all together, by the error of missing values once no required
  key is absent).
\<close>

theorem evaluate_config_keys_missing_keys_raised_first:
  assumes "\<exists>key\<in>set list_keys. key \<notin> fst ` set cfg"
    and "\<exists>key\<in>set list_keys. \<exists>value. (key, value) \<in> set cfg \<and> \<not> truthy value"
  shows "\<exists>reported. evaluate_config_keys cfg list_keys config_name =
           Inl (KeyError_missing_arguments config_name reported)
       \<and> (\<forall>key\<in>set list_keys. key \<notin> fst ` set cfg \<longrightarrow> key \<in> set reported)
       \<and> (\<forall>key value. (key, value) \<in> set cfg \<longrightarrow> key \<notin> set reported)"
proof -
  from assms(1) have "missing_keys cfg list_keys \<noteq> []"
    by (auto simp: missing_keys_Nil_iff)
  then have "evaluate_config_keys cfg list_keys config_name =
           Inl (KeyError_missing_arguments config_name (missing_keys cfg list_keys))"
    by (simp add: evaluate_config_keys_def)
  moreover have "\<forall>key\<in>set list_keys. key \<notin> fst ` set cfg \<longrightarrow> key \<in> set (missing_keys cfg list_keys)"
    by (simp add: set_missing_keys)
  moreover have "\<forall>key value. (key, value) \<in> set cfg \<longrightarrow> key \<notin> set (missing_keys cfg list_keys)"
    by (force simp: set_missing_keys)
  ultimately show ?thesis by blast
qed

theorem evaluate_config_keys_missing_keys_raised_first_witness:
  "(\<exists>key\<in>set [''store_bucket'', ''site_bucket'', ''data_bucket''].
      key \<notin> fst ` set [(''store_bucket'', PStr ''''), (''site_bucket'', PStr ''b2'')])
   \<and> (\<exists>key\<in>set [''store_bucket'', ''site_bucket'', ''data_bucket'']. \<exists>value.
        (key, value) \<in> set [(''store_bucket'', PStr ''''), (''site_bucket'', PStr ''b2'')]
        \<and> \<not> truthy value)
   \<and> (\<exists>reported.
        evaluate_config_keys [(''store_bucket'', PStr ''''), (''site_bucket'', PStr ''b2'')]
          [''store_bucket'', ''site_bucket'', ''data_bucket''] ''demo''
          = Inl (KeyError_missing_arguments ''demo'' reported)
        \<and> ''data_bucket'' \<in> set reported \<and> ''store_bucket'' \<notin> set reported)"
proof -
  have h1: "\<exists>key\<in>set [''store_bucket'', ''site_bucket'', ''data_bucket''].
      key \<notin> fst ` set [(''store_bucket'', PStr ''''), (''site_bucket'', PStr ''b2'')]"
    by simp
  have h2: "\<exists>key\<in>set [''store_bucket'', ''site_bucket'', ''data_bucket'']. \<exists>value.
        (key, value) \<in> set [(''store_bucket'', PStr ''''), (''site_bucket'', PStr ''b2'')]
        \<and> \<not> truthy value"
    by simp
  from evaluate_config_keys_missing_keys_raised_first[OF h1 h2, of "''demo''"]
  obtain reported where
    r: "evaluate_config_keys [(''store_bucket'', PStr ''''), (''site_bucket'', PStr ''b2'')]
          [''store_bucket'', ''site_bucket'', ''data_bucket''] ''demo''
          = Inl (KeyError_missing_arguments ''demo'' reported)"
    and a: "\<forall>key\<in>set [''store_bucket'', ''site_bucket'', ''data_bucket''].
         key \<notin> fst ` set [(''store_bucket'', PStr ''''), (''site_bucket'', PStr ''b2'')]
         \<longrightarrow> key \<in> set reported"
    and p: "\<forall>key value. (key, value) \<in> set [(''store_bucket'', PStr ''''), (''site_bucket'', PStr ''b2'')]
         \<longrightarrow> key \<notin> set reported"
    by blast
  from a have "''data_bucket'' \<in> set reported" by simp
  moreover from p have "''store_bucket'' \<notin> set reported" by simp
  ultimately show ?thesis using h1 h2 r by blast
qed

subsection \<open>The default values of the global configuration\<close>

text \<open>
  Claim C4: for every global configuration that passes the checks of
  \<open>evaluate_config_keys\<close> (every required key present, no empty value),
  \<open>evaluate_global_config\<close> returns normally when no required key has the value
  \<open>"MUST_BE_SET"\<close>, and otherwise raises the \<open>ValueError\<close> whose list is
  exactly the required keys with that value, in the order of the list of required keys.
\<close>

theorem evaluate_global_config_default_values:
  assumes "evaluate_config_keys cfg list_keys config_name = Inr ()"
  shows "evaluate_global_config cfg list_keys config_name =
     (if filter (\<lambda>key. getitem cfg key = Inr (PStr DEFAULT)) list_keys = [] then Inr ()
      else Inl (ValueError_default_values
                  (filter (\<lambda>key. getitem cfg key = Inr (PStr DEFAULT)) list_keys)))"
proof -
  from assms have "set list_keys \<subseteq> fst ` set cfg"
    by (simp add: evaluate_config_keys_Inr_iff missing_keys_Nil_iff)
  from default_loop_present[OF this, of False "[]"] assms show ?thesis
    by (simp add: evaluate_global_config_def)
qed

theorem evaluate_global_config_default_values_witness:
  "evaluate_config_keys [(''account_id'', PStr ''MUST_BE_SET''), (''region'', PStr ''eu-west-1'')]
      global_keys ''global'' = Inr ()
   \<and> evaluate_global_config [(''account_id'', PStr ''MUST_BE_SET''), (''region'', PStr ''eu-west-1'')]
      global_keys ''global'' = Inl (ValueError_default_values [''account_id''])
   \<and> evaluate_config_keys [(''account_id'', PInt 123456789012), (''region'', PStr ''eu-west-1'')]
      global_keys ''global'' = Inr ()
   \<and> evaluate_global_config [(''account_id'', PInt 123456789012), (''region'', PStr ''eu-west-1'')]
      global_keys ''global'' = Inr ()"
proof -
  have h1: "evaluate_config_keys
      [(''account_id'', PStr ''MUST_BE_SET''), (''region'', PStr ''eu-west-1'')]
      global_keys ''global'' = Inr ()"
    by (simp add: evaluate_config_keys_def missing_keys_def missing_values_def global_keys_def)
  have h2: "evaluate_config_keys
      [(''account_id'', PInt 123456789012), (''region'', PStr ''eu-west-1'')]
      global_keys ''global'' = Inr ()"
    by (simp add: evaluate_config_keys_def missing_keys_def missing_values_def global_keys_def)
  from evaluate_global_config_default_values[OF h1] evaluate_global_config_default_values[OF h2]
    h1 h2
  show ?thesis
    by (simp add: getitem_def DEFAULT_def global_keys_def)
qed

text \<open>
  Claim C10: in \<open>evaluate_global_config\<close> the subscript \<open>cfg[key]\<close> of the loop
  never raises. When the list of missing keys is empty (the check of presence passed),
  the subscript succeeds for every required key and the loop runs to its end; and since
  the loop is reached only after that check, no run of \<open>evaluate_global_config\<close>
  ends with the \<open>KeyError\<close> of a subscript.
\<close>

theorem evaluate_global_config_subscript_never_raises:
  "(missing_keys cfg list_keys = [] \<longrightarrow>
      (\<forall>key\<in>set list_keys. \<exists>value. getitem cfg key = Inr value)
      \<and> (\<exists>st. default_loop cfg list_keys (False, []) = Inr st))
   \<and> evaluate_global_config cfg list_keys config_name \<noteq> Inl (KeyError key')"
proof -
  have a: "missing_keys cfg list_keys = [] \<Longrightarrow>
      \<forall>key\<in>set list_keys. \<exists>value. getitem cfg key = Inr value"
    by (auto simp: missing_keys_Nil_iff intro!: getitem_present)
  have b: "missing_keys cfg list_keys = [] \<Longrightarrow>
      \<exists>st. default_loop cfg list_keys (False, []) = Inr st"
    by (simp add: missing_keys_Nil_iff default_loop_present)
  have c: "evaluate_global_config cfg list_keys config_name \<noteq> Inl (KeyError key')"
  proof (cases "missing_keys cfg list_keys = []")
    case True
    then have "set list_keys \<subseteq> fst ` set cfg" by (simp add: missing_keys_Nil_iff)
    from default_loop_present[OF this, of False "[]"] show ?thesis
      by (simp add: evaluate_global_config_def evaluate_config_keys_def)
  next
    case False
    then show ?thesis
      by (simp add: evaluate_global_config_def evaluate_config_keys_def)
  qed
  from a b c show ?thesis by blast
qed

theorem evaluate_global_config_subscript_never_raises_witness:
  "missing_keys [(''region'', PStr ''MUST_BE_SET''), (''account_id'', PStr '''')] global_keys = []
   \<and> (\<exists>value.
        getitem [(''region'', PStr ''MUST_BE_SET''), (''account_id'', PStr '''')] ''account_id''
          = Inr value)
   \<and> (\<exists>value.
        getitem [(''region'', PStr ''MUST_BE_SET''), (''account_id'', PStr '''')] ''region''
          = Inr value)
   \<and> (\<exists>st. default_loop [(''region'', PStr ''MUST_BE_SET''), (''account_id'', PStr '''')]
              global_keys (False, []) = Inr st)
   \<and> evaluate_global_config [(''region'', PStr ''MUST_BE_SET''), (''account_id'', PStr '''')]
        global_keys ''global'' \<noteq> Inl (KeyError ''account_id'')"
proof -
  have h: "missing_keys [(''region'', PStr ''MUST_BE_SET''), (''account_id'', PStr '''')]
             global_keys = []"
    by (simp add: missing_keys_def global_keys_def)
  from evaluate_global_config_subscript_never_raises
         [of "[(''region'', PStr ''MUST_BE_SET''), (''account_id'', PStr '''')]" global_keys
             "''global''" "''account_id''"] h
  show ?thesis by (simp add: global_keys_def)
qed

subsection \<open>The two checks of the main program\<close>

text \<open>
  Claim C5 does not hold as it is stated: \<open>site_bucket_prefix\<close> is one of the
  required keys of the project, so a project configuration that omits it fails the
  check of presence, whatever the other values are.
\<close>

theorem main_program_checks_site_bucket_prefix_omitted:
  "main_program_checks
     [(''account_id'', PStr ''123''), (''region'', PStr ''us-east-1'')]
     [(''store_bucket'', PStr ''b1''), (''store_bucket_prefix'', PStr ''ge''),
      (''site_bucket'', PStr ''b2''), (''docker_image_name'', PStr ''myimg''),
      (''site_name'', PStr ''site''), (''expectations_suite_name'', PStr ''suite''),
      (''checkpoint_name'', PStr ''checkpoint''), (''run_name_template'', PStr ''run''),
      (''data_bucket'', PStr ''b3''), (''prefix_data'', PStr ''data'')]
     ''demo''
   = Inl (KeyError_missing_arguments ''demo'' [''site_bucket_prefix''])"
  by (simp add: main_program_checks_def evaluate_global_config_def evaluate_config_keys_def
      missing_keys_def missing_values_def global_keys_def project_keys_def getitem_def DEFAULT_def)

text \<open>
  Claim C5, amended: given the global configuration
  \<open>{account_id: "123", region: "us-east-1"}\<close> and a project configuration that has
  every required key, \<open>site_bucket_prefix\<close> too, and in which every value is
  non-empty except possibly that of \<open>site_bucket_prefix\<close>, the check of the global
  configuration followed by the check of the project configuration returns normally.
\<close>

theorem main_program_checks_empty_site_bucket_prefix:
  assumes "set project_keys \<subseteq> fst ` set cfg"
    and "\<forall>(key, value)\<in>set cfg. key \<noteq> ''site_bucket_prefix'' \<longrightarrow> truthy value"
  shows "main_program_checks
           [(''account_id'', PStr ''123''), (''region'', PStr ''us-east-1'')] cfg project
         = Inr ()"
proof -
  have g: "evaluate_global_config
             [(''account_id'', PStr ''123''), (''region'', PStr ''us-east-1'')]
             global_keys ''global'' = Inr ()"
    by (simp add: evaluate_global_config_def evaluate_config_keys_def missing_keys_def
        missing_values_def global_keys_def getitem_def DEFAULT_def)
  from assms(1) have k: "missing_keys cfg project_keys = []"
    by (simp add: missing_keys_Nil_iff)
  from assms(2) have "set (missing_values cfg) = {}"
    unfolding set_missing_values by blast
  then have v: "missing_values cfg = []" by simp
  from k v have "evaluate_config_keys cfg project_keys project = Inr ()"
    by (simp add: evaluate_config_keys_Inr_iff)
  with g show ?thesis
    by (simp add: main_program_checks_def)
qed

theorem main_program_checks_empty_site_bucket_prefix_witness:
  "main_program_checks
     [(''account_id'', PStr ''123''), (''region'', PStr ''us-east-1'')]
     [(''store_bucket'', PStr ''b1''), (''store_bucket_prefix'', PStr ''ge''),
      (''site_bucket'', PStr ''b2''), (''site_bucket_prefix'', PNone),
      (''docker_image_name'', PStr ''myimg''),
      (''site_name'', PStr ''site''), (''expectations_suite_name'', PStr ''suite''),
      (''checkpoint_name'', PStr ''checkpoint''), (''run_name_template'', PStr ''run''),
      (''data_bucket'', PStr ''b3''), (''prefix_data'', PStr ''data'')]
     ''demo''
   = Inr ()"
  by (rule main_program_checks_empty_site_bucket_prefix) (simp_all add: project_keys_def)

section \<open>Properties of the rendering\<close>

subsection \<open>Auxiliary facts\<close>

lemma sublist_skip: "sublist xs ys \<Longrightarrow> sublist xs (zs @ ys)"
  by (metis sublist_appendI sublist_order.order_trans sublist_append_leftI)

lemma ecr_document_header:
  \<open>prefix
     (''#!/bin/bash\<newline>'' @
      ''    \<newline>'' @
      ''# Ensure region is (temporarily) set to prevent errors\<newline>'' @
      ''export AWS_DEFAULT_REGION="eu-west-1"\<newline>'')
     (ecr_document docker_image region ECR_endpoint)\<close>
  by (simp add: ecr_document_def)

lemma ecr_document_build_line:
  \<open>sublist (''docker build -t '' @ py_str docker_image @ '' .'')
     (ecr_document docker_image region ECR_endpoint)\<close>
  by (simp add: ecr_document_def sublist_Cons_right)

lemma ecr_document_login_line:
  \<open>sublist (''aws ecr get-login-password --region '' @ py_str region @
            '' | docker login --username AWS --password-stdin '' @ ECR_endpoint)
     (ecr_document docker_image region ECR_endpoint)\<close>
  by (simp add: ecr_document_def sublist_Cons_right sublist_skip)

lemma ecr_document_endpoint:
  \<open>sublist ECR_endpoint (ecr_document docker_image region ECR_endpoint)\<close>
proof -
  have \<open>sublist ECR_endpoint
          (''aws ecr get-login-password --region '' @ py_str region @
            '' | docker login --username AWS --password-stdin '' @ ECR_endpoint)\<close>
    by (intro sublist_skip) simp
  then show ?thesis
    using ecr_document_login_line sublist_order.order_trans by blast
qed

lemma generate_ecr_bash_script_result:
  assumes "getitem cfg_global ''account_id'' = Inr account_id"
    and "getitem cfg_global ''region'' = Inr region"
    and "getitem cfg ''docker_image_name'' = Inr docker_image"
  shows "generate_ecr_bash_script cfg project cfg_global =
           Inr [(''./'' @ project @ ''//build_image_store_on_ecr.sh'',
                 ecr_document docker_image region
                   (py_str account_id @ ''.dkr.ecr.'' @ py_str region @ ''.amazonaws.com''))]"
  using assms by (simp add: generate_ecr_bash_script_def)

subsection \<open>The build script\<close>

text \<open>
  Claim C6: for every global configuration with an account and a region (and project
  configuration with an image name), the script that
  \<open>generate_ecr_bash_script\<close> writes begins with the same four lines, the last of
  which sets \<open>AWS_DEFAULT_REGION\<close> to \<open>"eu-west-1"\<close>, whatever the configured
  region is; the command that logs in to the registry has the configured region after
  \<open>--region\<close> and in the registry endpoint.
\<close>

theorem generate_ecr_bash_script_region:
  assumes "getitem cfg_global ''account_id'' = Inr account_id"
    and "getitem cfg_global ''region'' = Inr region"
    and "getitem cfg ''docker_image_name'' = Inr docker_image"
  shows \<open>\<exists>document.
      generate_ecr_bash_script cfg project cfg_global =
        Inr [(''./'' @ project @ ''//build_image_store_on_ecr.sh'', document)]
    \<and> prefix
        (''#!/bin/bash\<newline>'' @
         ''    \<newline>'' @
         ''# Ensure region is (temporarily) set to prevent errors\<newline>'' @
         ''export AWS_DEFAULT_REGION="eu-west-1"\<newline>'')
        document
    \<and> sublist
        (''aws ecr get-login-password --region '' @ py_str region @
         '' | docker login --username AWS --password-stdin '' @
         py_str account_id @ ''.dkr.ecr.'' @ py_str region @ ''.amazonaws.com'')
        document\<close>
  unfolding generate_ecr_bash_script_result[OF assms]
  using ecr_document_header ecr_document_login_line by blast

theorem generate_ecr_bash_script_region_witness:
  \<open>\<exists>document.
      generate_ecr_bash_script [(''docker_image_name'', PStr ''myimg'')] ''demo''
        [(''account_id'', PStr ''123''), (''region'', PStr ''us-east-1'')] =
        Inr [(''./demo//build_image_store_on_ecr.sh'', document)]
    \<and> prefix
        (''#!/bin/bash\<newline>'' @
         ''    \<newline>'' @
         ''# Ensure region is (temporarily) set to prevent errors\<newline>'' @
         ''export AWS_DEFAULT_REGION="eu-west-1"\<newline>'')
        document
    \<and> sublist
        ''aws ecr get-login-password --region us-east-1 | docker login --username AWS --password-stdin 123.dkr.ecr.us-east-1.amazonaws.com''
        document\<close>
  using generate_ecr_bash_script_region
    [of "[(''account_id'', PStr ''123''), (''region'', PStr ''us-east-1'')]" "PStr ''123''"
        "PStr ''us-east-1''" "[(''docker_image_name'', PStr ''myimg'')]" "PStr ''myimg''"
        "''demo''"]
  by (simp add: getitem_def)

text \<open>
  Claim C7: for every project configuration with an image name and every global
  configuration with an account and a region, the script that
  \<open>generate_ecr_bash_script\<close> writes contains the registry endpoint
  \<open>{account_id}.dkr.ecr.{region}.amazonaws.com\<close> and the line
  \<open>docker build -t {docker_image_name} .\<close>; with the image name \<open>"myimg"\<close>,
  the account \<open>"123456789012"\<close> and the region \<open>"eu-west-1"\<close> it contains
  \<open>123456789012.dkr.ecr.eu-west-1.amazonaws.com\<close> and
  \<open>docker build -t myimg .\<close>.
\<close>

theorem generate_ecr_bash_script_endpoint:
  assumes "getitem cfg_global ''account_id'' = Inr account_id"
    and "getitem cfg_global ''region'' = Inr region"
    and "getitem cfg ''docker_image_name'' = Inr docker_image"
  shows \<open>\<exists>document.
      generate_ecr_bash_script cfg project cfg_global =
        Inr [(''./'' @ project @ ''//build_image_store_on_ecr.sh'', document)]
    \<and> sublist (py_str account_id @ ''.dkr.ecr.'' @ py_str region @ ''.amazonaws.com'') document
    \<and> sublist (''docker build -t '' @ py_str docker_image @ '' .'') document
    \<and> (docker_image = PStr ''myimg'' \<and> account_id = PStr ''123456789012''
         \<and> region = PStr ''eu-west-1'' \<longrightarrow>
         sublist ''123456789012.dkr.ecr.eu-west-1.amazonaws.com'' document
         \<and> sublist ''docker build -t myimg .'' document)\<close>
proof -
  let ?d = "ecr_document docker_image region
              (py_str account_id @ ''.dkr.ecr.'' @ py_str region @ ''.amazonaws.com'')"
  have e: "sublist (py_str account_id @ ''.dkr.ecr.'' @ py_str region @ ''.amazonaws.com'') ?d"
    by (rule ecr_document_endpoint)
  have b: "sublist (''docker build -t '' @ py_str docker_image @ '' .'') ?d"
    by (rule ecr_document_build_line)
  have c: "docker_image = PStr ''myimg'' \<and> account_id = PStr ''123456789012''
         \<and> region = PStr ''eu-west-1'' \<longrightarrow>
         sublist ''123456789012.dkr.ecr.eu-west-1.amazonaws.com'' ?d
         \<and> sublist ''docker build -t myimg .'' ?d"
    using e b by auto
  from e b c show ?thesis
    unfolding generate_ecr_bash_script_result[OF assms] by blast
qed

theorem generate_ecr_bash_script_endpoint_witness:
  \<open>\<exists>document.
      generate_ecr_bash_script [(''docker_image_name'', PStr ''myimg'')] ''demo''
        [(''account_id'', PStr ''123456789012''), (''region'', PStr ''eu-west-1'')] =
        Inr [(''./demo//build_image_store_on_ecr.sh'', document)]
    \<and> sublist ''123456789012.dkr.ecr.eu-west-1.amazonaws.com'' document
    \<and> sublist ''docker build -t myimg .'' document\<close>
  using generate_ecr_bash_script_endpoint
    [of "[(''account_id'', PStr ''123456789012''), (''region'', PStr ''eu-west-1'')]"
        "PStr ''123456789012''" "PStr ''eu-west-1''" "[(''docker_image_name'', PStr ''myimg'')]"
        "PStr ''myimg''" "''demo''"]
  by (simp add: getitem_def) blast

subsection \<open>The variable files\<close>

text \<open>
  Claim C8: for every project configuration with the three buckets and an image name,
  and every global configuration with an account and a region,
  \<open>generate_terraform_var_files\<close> writes two files. The first is three lines that
  assign the store, site and data buckets to \<open>ge-bucket-name\<close>,
  \<open>ge-site-bucket-name\<close> and \<open>ge-data-bucket-name\<close>, in that order; with the
  buckets \<open>"b1"\<close>, \<open>"b2"\<close> and \<open>"b3"\<close> it is exactly the text shown. The
  second is the first followed by \<open>image_uri = "..."\<close>, built from the account, the
  region and the image name; that addition is one line (it holds no newline) when
  the three values hold none.
\<close>

theorem generate_terraform_var_files_documents:
  assumes "getitem cfg ''store_bucket'' = Inr store_bucket"
    and "getitem cfg ''site_bucket'' = Inr site_bucket"
    and "getitem cfg ''data_bucket'' = Inr data_bucket"
    and "getitem cfg_global ''account_id'' = Inr account_id"
    and "getitem cfg_global ''region'' = Inr region"
    and "getitem cfg ''docker_image_name'' = Inr docker_image_name"
  shows \<open>\<exists>document_buckets image_uri_line.
      generate_terraform_var_files cfg project cfg_global =
        Inr [(''./'' @ project @ ''/terraform/buckets/'' @ project @ ''.auto.tfvars'',
              document_buckets),
             (''./'' @ project @ ''/terraform/lambda/'' @ project @ ''.auto.tfvars'',
              document_buckets @ image_uri_line)]
    \<and> document_buckets =
        ''ge-bucket-name      = "'' @ py_str store_bucket @ ''"\<newline>'' @
        ''ge-site-bucket-name = "'' @ py_str site_bucket @ ''"\<newline>'' @
        ''ge-data-bucket-name = "'' @ py_str data_bucket @ ''"\<newline>''
    \<and> image_uri_line =
        ''image_uri = "'' @ py_str account_id @ ''.dkr.ecr.'' @ py_str region @
        ''.amazonaws.com/'' @ py_str docker_image_name @ '':latest"''
    \<and> (CHR ''\<newline>'' \<notin> set (py_str account_id @ py_str region @ py_str docker_image_name)
         \<longrightarrow> CHR ''\<newline>'' \<notin> set image_uri_line)
    \<and> (store_bucket = PStr ''b1'' \<and> site_bucket = PStr ''b2'' \<and> data_bucket = PStr ''b3''
         \<longrightarrow> document_buckets =
           ''ge-bucket-name      = "b1"\<newline>'' @
           ''ge-site-bucket-name = "b2"\<newline>'' @
           ''ge-data-bucket-name = "b3"\<newline>'')\<close>
proof -
  let ?b = \<open>''ge-bucket-name      = "'' @ py_str store_bucket @ ''"\<newline>'' @
        ''ge-site-bucket-name = "'' @ py_str site_bucket @ ''"\<newline>'' @
        ''ge-data-bucket-name = "'' @ py_str data_bucket @ ''"\<newline>''\<close>
  let ?l = \<open>''image_uri = "'' @ py_str account_id @ ''.dkr.ecr.'' @ py_str region @
        ''.amazonaws.com/'' @ py_str docker_image_name @ '':latest"''\<close>
  have r: \<open>generate_terraform_var_files cfg project cfg_global =
        Inr [(''./'' @ project @ ''/terraform/buckets/'' @ project @ ''.auto.tfvars'', ?b),
             (''./'' @ project @ ''/terraform/lambda/'' @ project @ ''.auto.tfvars'', ?b @ ?l)]\<close>
    using assms by (simp add: generate_terraform_var_files_def)
  have n: \<open>CHR ''\<newline>'' \<notin> set (py_str account_id @ py_str region @ py_str docker_image_name)
         \<longrightarrow> CHR ''\<newline>'' \<notin> set ?l\<close>
    by simp
  have c: \<open>store_bucket = PStr ''b1'' \<and> site_bucket = PStr ''b2'' \<and> data_bucket = PStr ''b3''
         \<longrightarrow> ?b =
           ''ge-bucket-name      = "b1"\<newline>'' @
           ''ge-site-bucket-name = "b2"\<newline>'' @
           ''ge-data-bucket-name = "b3"\<newline>''\<close>
    by simp
  from r n c show ?thesis by blast
qed

theorem generate_terraform_var_files_documents_witness:
  \<open>generate_terraform_var_files
      [(''store_bucket'', PStr ''b1''), (''site_bucket'', PStr ''b2''),
       (''data_bucket'', PStr ''b3''), (''docker_image_name'', PStr ''myimg'')]
      ''demo''
      [(''account_id'', PInt 123456789012), (''region'', PStr ''eu-west-1'')] =
    Inr [(''./demo/terraform/buckets/demo.auto.tfvars'',
          ''ge-bucket-name      = "b1"\<newline>'' @
          ''ge-site-bucket-name = "b2"\<newline>'' @
          ''ge-data-bucket-name = "b3"\<newline>''),
         (''./demo/terraform/lambda/demo.auto.tfvars'',
          ''ge-bucket-name      = "b1"\<newline>'' @
          ''ge-site-bucket-name = "b2"\<newline>'' @
          ''ge-data-bucket-name = "b3"\<newline>'' @
          ''image_uri = "123456789012.dkr.ecr.eu-west-1.amazonaws.com/myimg:latest"'')]\<close>
proof -
  let ?cfg = "[(''store_bucket'', PStr ''b1''), (''site_bucket'', PStr ''b2''),
       (''data_bucket'', PStr ''b3''), (''docker_image_name'', PStr ''myimg'')]"
  let ?g = "[(''account_id'', PInt 123456789012), (''region'', PStr ''eu-west-1'')]"
  have i: "py_str (PInt 123456789012) = ''123456789012''"
    by (simp add: str_nat.simps)
  have h1: "getitem ?cfg ''store_bucket'' = Inr (PStr ''b1'')" by (simp add: getitem_def)
  have h2: "getitem ?cfg ''site_bucket'' = Inr (PStr ''b2'')" by (simp add: getitem_def)
  have h3: "getitem ?cfg ''data_bucket'' = Inr (PStr ''b3'')" by (simp add: getitem_def)
  have h4: "getitem ?g ''account_id'' = Inr (PInt 123456789012)" by (simp add: getitem_def)
  have h5: "getitem ?g ''region'' = Inr (PStr ''eu-west-1'')" by (simp add: getitem_def)
  have h6: "getitem ?cfg ''docker_image_name'' = Inr (PStr ''myimg'')" by (simp add: getitem_def)
  from generate_terraform_var_files_documents[OF h1 h2 h3 h4 h5 h6, of "''demo''"]
  obtain document_buckets image_uri_line where
    r: \<open>generate_terraform_var_files ?cfg ''demo'' ?g =
        Inr [(''./'' @ ''demo'' @ ''/terraform/buckets/'' @ ''demo'' @ ''.auto.tfvars'',
              document_buckets),
             (''./'' @ ''demo'' @ ''/terraform/lambda/'' @ ''demo'' @ ''.auto.tfvars'',
              document_buckets @ image_uri_line)]\<close>
    and b: \<open>document_buckets =
        ''ge-bucket-name      = "'' @ py_str (PStr ''b1'') @ ''"\<newline>'' @
        ''ge-site-bucket-name = "'' @ py_str (PStr ''b2'') @ ''"\<newline>'' @
        ''ge-data-bucket-name = "'' @ py_str (PStr ''b3'') @ ''"\<newline>''\<close>
    and l: \<open>image_uri_line =
        ''image_uri = "'' @ py_str (PInt 123456789012) @ ''.dkr.ecr.'' @
        py_str (PStr ''eu-west-1'') @
        ''.amazonaws.com/'' @ py_str (PStr ''myimg'') @ '':latest"''\<close>
    by (elim exE conjE)
  show ?thesis
    unfolding r b l i by simp
qed

subsection \<open>The rendered texts depend on the configurations only\<close>

text \<open>
  Claim C9: the texts that \<open>generate_ecr_bash_script\<close>,
  \<open>generate_terraform_var_files\<close> and \<open>generate_terraform_provider_config\<close>
  write are determined by the project and global configurations. For given
  configurations, every call of the first two writes the same texts (or raises the
  same exception), whatever the project name is; and there is one text such that every
  call of the third writes only that text, whatever the project name, the listing of
  the Terraform directory and the working directory are.
\<close>

theorem generators_texts_determined_by_configs:
  "(\<exists>texts. \<forall>project.
      written_texts (generate_ecr_bash_script cfg project cfg_global) = texts)
   \<and> (\<exists>texts. \<forall>project.
      written_texts (generate_terraform_var_files cfg project cfg_global) = texts)
   \<and> (\<exists>document. \<forall>listdir abspath project.
      written_text_set (generate_terraform_provider_config listdir abspath project cfg_global)
        \<subseteq> {document})"
proof -
  have a: "\<forall>project. written_texts (generate_ecr_bash_script cfg project cfg_global) =
      written_texts (generate_ecr_bash_script cfg [] cfg_global)"
    by (simp add: written_texts_def generate_ecr_bash_script_def split: sum.splits)
  have b: "\<forall>project. written_texts (generate_terraform_var_files cfg project cfg_global) =
      written_texts (generate_terraform_var_files cfg [] cfg_global)"
    by (simp add: written_texts_def generate_terraform_var_files_def Let_def split: sum.splits)
  have c: "\<forall>listdir abspath project.
      written_text_set (generate_terraform_provider_config listdir abspath project cfg_global)
        \<subseteq> {case getitem cfg_global ''region'' of Inl e \<Rightarrow> [] | Inr region \<Rightarrow> provider_document region}"
    by (auto simp: written_text_set_def generate_terraform_provider_config_def Let_def
        split: sum.splits option.splits)
  from a b c show ?thesis by blast
qed

end
